theory Spec2Isabelle
  imports Complex_Main "HOL-Library.Sublist" "HOL-Library.List_Lexorder"
begin

section \<open>The labour-statistics dashboard of app.py\<close>

text \<open>
  The program is one Python script, \<^verbatim>\<open>app.py\<close>: \<^verbatim>\<open>load_data\<close> reads a CSV table with
  pandas, drops the aggregate rows and adds the unemployment-rate column;
  \<^verbatim>\<open>main_dashboard\<close> filters the table by the years and regions picked in the sidebar,
  computes three figures and hands them, three charts, a table and a CSV download to the
  Streamlit user interface.

  Conventions of the model.
  \<^item> A Python \<^verbatim>\<open>str\<close> is the list of its code points (\<open>pystr\<close>); \<^verbatim>\<open>bytes\<close> is a list of
    numbers below 256.
  \<^item> The year column is an integer column. The values of the three population columns
    and of the derived rate are modelled by exact rationals, so the rounding of binary
    floating point, infinities and NaN cells are outside the model.
  \<^item> The text that pandas writes for a number in a CSV file depends on the type of the
    column and on the binary float; it belongs to the library and is a parameter of the
    model, \<open>number_str\<close>, from the column and the number to the text.
  \<^item> An exception is a value of type \<open>exn\<close>; a computation that may raise returns
    \<open>exn + 'a\<close>, with \<open>Inl\<close> for the exception.
  \<^item> Every call into Streamlit that shows something is an \<open>event\<close>; a run of the script
    is the list of the events it produced, with the exception that ended it, if any.
\<close>

subsection \<open>Data\<close>

type_synonym pystr = "nat list"

type_synonym bytes = "nat list"

definition ascii :: "string \<Rightarrow> pystr" where
  "ascii s = map of_char s"

text \<open>One row of the table that \<^verbatim>\<open>pd.read_csv\<close> returns: the columns of lines 18, 21, 36 and 67.\<close>

record row =
  year :: int
  region :: pystr
  economically_active :: rat
  employed :: rat
  unemployed :: rat

text \<open>A row of the table after line 20 has added the derived column.\<close>

record rated_row = row +
  unemployment_rate :: rat

datatype exn =
    FileNotFoundError
  | PermissionError
  | IsADirectoryError
  | ZeroDivisionError
  | UnicodeEncodeError

text \<open>What a path names when \<^verbatim>\<open>pd.read_csv\<close> opens it.\<close>

datatype path_state =
    NoSuchFile
  | NotPermitted
  | Directory
  | CsvFile "row list"

type_synonym filesystem = "pystr \<Rightarrow> path_state"

text \<open>The texts shown by lines 26, 57, 63 and 88.\<close>

datatype message =
    FileNotFoundMessage pystr
  | SelectYearAndRegion
  | NoMatchingData
  | SelectTwoYears

text \<open>The three figures of lines 73 to 75, and the three headings of lines 83, 91 and 95.\<close>

datatype kpi = TotalEmployed | TotalUnemployed | AvgUnemploymentRate

datatype heading = TrendHeading | RatioHeading | RegionRateHeading "int list"

text \<open>
  A float that may be NaN: \<open>None\<close> is NaN. Only \<^verbatim>\<open>mean\<close> and the empty cells of a
  pivot table produce one.
\<close>

type_synonym pyfloat = "rat option"

text \<open>
  The calls into Streamlit, in the order of the script: line 5, line 26, lines 50 and 51,
  lines 57 and 63, line 71, lines 73 to 75, line 77, the subheaders, line 86, line 88,
  line 93, line 97, line 101, line 102 and line 106. The table of line 102 is given as the
  rows, each with the text its rate cell is styled to.
\<close>

datatype event =
    PageConfig
  | ErrorBox message
  | Title
  | Intro
  | Warning message
  | SummaryHeading
  | Metric kpi pystr
  | Divider
  | Subheader heading
  | LineChart "(int \<times> (pystr \<times> pyfloat) list) list"
  | Info message
  | RatioChart "(pystr \<times> rat) list"
  | RateChart "(pystr \<times> pyfloat) list"
  | Expander
  | Dataframe "(rated_row \<times> pystr) list"
  | DownloadButton bytes pystr pystr

text \<open>What a run showed, and the exception that ended it, if one did.\<close>

record run =
  shown :: "event list"
  raised :: "exn option"

subsection \<open>Loading: \<^verbatim>\<open>load_data\<close>, lines 14 to 27\<close>

text \<open>The literal of line 18, one Hangul syllable, U+ACC4.\<close>

definition aggregate_marker :: pystr where
  "aggregate_marker = [0xACC4]"

text \<open>
  \<^verbatim>\<open>pd.read_csv(path)\<close> opens the file as Python's \<^verbatim>\<open>open\<close> does: a missing file raises
  FileNotFoundError, a file the process may not read PermissionError, a directory
  IsADirectoryError. The content of a file is taken as already parsed, with the five
  columns present.
\<close>

fun read_csv :: "filesystem \<Rightarrow> pystr \<Rightarrow> exn + row list" where
  "read_csv fs path =
     (case fs path of
        NoSuchFile \<Rightarrow> Inl FileNotFoundError
      | NotPermitted \<Rightarrow> Inl PermissionError
      | Directory \<Rightarrow> Inl IsADirectoryError
      | CsvFile rows \<Rightarrow> Inr rows)"

text \<open>Line 18: the boolean mask \<^verbatim>\<open>df['region'] != marker\<close> and the rows it keeps.\<close>

definition drop_aggregate :: "row list \<Rightarrow> row list" where
  "drop_aggregate df = filter (\<lambda>r. region r \<noteq> aggregate_marker) df"

text \<open>Python's \<^verbatim>\<open>/\<close> on two floats raises on a zero divisor.\<close>

definition truediv :: "rat \<Rightarrow> rat \<Rightarrow> exn + rat" where
  "truediv x y = (if y = 0 then Inl ZeroDivisionError else Inr (x / y))"

text \<open>The lambda of line 21.\<close>

definition rate_lambda :: "row \<Rightarrow> exn + rat" where
  "rate_lambda r =
     (if economically_active r > 0
      then (case truediv (unemployed r) (economically_active r) of
              Inl e \<Rightarrow> Inl e
            | Inr q \<Rightarrow> Inr (q * 100))
      else Inr 0)"

text \<open>\<^verbatim>\<open>df.apply(f, axis=1)\<close>: the function on each row in turn; an exception ends it.\<close>

fun apply_axis1 :: "(row \<Rightarrow> exn + rat) \<Rightarrow> row list \<Rightarrow> exn + rat list" where
  "apply_axis1 f [] = Inr []"
| "apply_axis1 f (r # rs) =
     (case f r of
        Inl e \<Rightarrow> Inl e
      | Inr v \<Rightarrow> (case apply_axis1 f rs of Inl e \<Rightarrow> Inl e | Inr vs \<Rightarrow> Inr (v # vs)))"

text \<open>The assignment of line 20: the new column, row by row.\<close>

definition with_rate :: "row \<Rightarrow> rat \<Rightarrow> rated_row" where
  "with_rate r v =
     \<lparr>year = year r, region = region r, economically_active = economically_active r,
      employed = employed r, unemployed = unemployed r, unemployment_rate = v\<rparr>"

definition assign_rate :: "row list \<Rightarrow> rat list \<Rightarrow> rated_row list" where
  "assign_rate df vs = map2 with_rate df vs"

text \<open>The body of the \<^verbatim>\<open>try\<close>, lines 17 to 24.\<close>

definition load_body :: "filesystem \<Rightarrow> pystr \<Rightarrow> exn + rated_row list" where
  "load_body fs path =
     (case read_csv fs path of
        Inl e \<Rightarrow> Inl e
      | Inr df0 \<Rightarrow>
          (let df = drop_aggregate df0
           in case apply_axis1 rate_lambda df of
                Inl e \<Rightarrow> Inl e
              | Inr vs \<Rightarrow> Inr (assign_rate df vs)))"

text \<open>
  \<^verbatim>\<open>load_data\<close>: the events it shows, and either the exception it lets through or its
  return value (\<open>None\<close> is Python's \<^verbatim>\<open>None\<close>). Only FileNotFoundError is caught. The
  decorator of line 13 keeps the result for later calls with the same path; the model is
  the function it decorates.
\<close>

definition load_data :: "filesystem \<Rightarrow> pystr \<Rightarrow> event list \<times> (exn + rated_row list option)" where
  "load_data fs path =
     (case load_body fs path of
        Inr df \<Rightarrow> ([], Inr (Some df))
      | Inl e \<Rightarrow>
          (if e = FileNotFoundError
           then ([ErrorBox (FileNotFoundMessage path)], Inr None)
           else ([], Inl e)))"

subsection \<open>Text of numbers\<close>

text \<open>Decimal digits of a natural number, as code points.\<close>

fun digits :: "nat \<Rightarrow> pystr" where
  "digits n = (if n < 10 then [48 + n] else digits (n div 10) @ [48 + n mod 10])"

declare digits.simps [simp del]

text \<open>\<^verbatim>\<open>str\<close> of a Python integer.\<close>

definition str_int :: "int \<Rightarrow> pystr" where
  "str_int i = (if i < 0 then 45 # digits (nat (- i)) else digits (nat i))"

text \<open>Rounding to the nearest integer, a tie to the even one, as Python's formatting does.\<close>

definition round_half_even :: "rat \<Rightarrow> int" where
  "round_half_even x =
     (let f = \<lfloor>x\<rfloor>; d = x - of_int f
      in if d < 1 / 2 then f
         else if 1 / 2 < d then f + 1
         else if even f then f else f + 1)"

text \<open>The thousands separator of the format \<^verbatim>\<open>,\<close>: on the digits from the right.\<close>

fun commas :: "pystr \<Rightarrow> pystr" where
  "commas (a # b # c # d # ds) = a # b # c # 44 # commas (d # ds)"
| "commas ds = ds"

definition group3 :: "pystr \<Rightarrow> pystr" where
  "group3 ds = rev (commas (rev ds))"

definition zero_pad :: "nat \<Rightarrow> pystr \<Rightarrow> pystr" where
  "zero_pad w ds = replicate (w - length ds) 48 @ ds"

text \<open>
  The format specifications \<^verbatim>\<open>{:.pf}\<close> and \<^verbatim>\<open>{:,.pf}\<close> on a number: \<open>p\<close> digits after
  the point, the sign of the number kept even when the digits are all zero.
\<close>

definition format_f :: "nat \<Rightarrow> bool \<Rightarrow> rat \<Rightarrow> pystr" where
  "format_f p grouped x =
     (let scaled = nat (round_half_even (\<bar>x\<bar> * 10 ^ p));
          whole = digits (scaled div 10 ^ p);
          fraction = (if p = 0 then [] else 46 # zero_pad p (digits (scaled mod 10 ^ p)))
      in (if x < 0 then [45] else []) @ (if grouped then group3 whole else whole) @ fraction)"

text \<open>The same formats on a float that may be NaN.\<close>

definition format_pyfloat :: "nat \<Rightarrow> bool \<Rightarrow> pyfloat \<Rightarrow> pystr" where
  "format_pyfloat p grouped v =
     (case v of None \<Rightarrow> ascii ''nan'' | Some x \<Rightarrow> format_f p grouped x)"

text \<open>The style of line 102 and the format of line 75: \<^verbatim>\<open>{:.2f}%\<close>.\<close>

definition percent_2f :: "rat \<Rightarrow> pystr" where
  "percent_2f x = format_f 2 False x @ [37]"

subsection \<open>Filtering: line 60\<close>

text \<open>\<^verbatim>\<open>Series.isin(values)\<close>: one boolean for each cell of the column.\<close>

definition isin :: "'a list \<Rightarrow> 'a list \<Rightarrow> bool list" where
  "isin col vals = map (\<lambda>v. v \<in> set vals) col"

text \<open>The operator \<^verbatim>\<open>&\<close> on two boolean columns.\<close>

definition mask_and :: "bool list \<Rightarrow> bool list \<Rightarrow> bool list" where
  "mask_and m1 m2 = map2 (\<and>) m1 m2"

text \<open>\<^verbatim>\<open>df[mask]\<close>: the rows whose entry of the boolean column is true.\<close>

definition boolean_index :: "'r list \<Rightarrow> bool list \<Rightarrow> 'r list" where
  "boolean_index df keep = map fst (filter snd (zip df keep))"

definition filter_df :: "rated_row list \<Rightarrow> int list \<Rightarrow> pystr list \<Rightarrow> rated_row list" where
  "filter_df df selected_years selected_regions =
     boolean_index df
       (mask_and (isin (map year df) selected_years) (isin (map region df) selected_regions))"

subsection \<open>Aggregation: lines 67 to 69, 85 and 96\<close>

text \<open>\<^verbatim>\<open>Series.sum()\<close> and \<^verbatim>\<open>Series.mean()\<close>; the mean of no value is NaN.\<close>

definition pd_sum :: "rat list \<Rightarrow> rat" where
  "pd_sum xs = foldl (+) 0 xs"

definition pd_mean :: "rat list \<Rightarrow> pyfloat" where
  "pd_mean xs = (if xs = [] then None else Some (pd_sum xs / of_nat (length xs)))"

definition total_employed :: "rated_row list \<Rightarrow> rat" where
  "total_employed filtered_df = pd_sum (map employed filtered_df)"

definition total_unemployed :: "rated_row list \<Rightarrow> rat" where
  "total_unemployed filtered_df = pd_sum (map unemployed filtered_df)"

definition avg_unemployment_rate :: "rated_row list \<Rightarrow> pyfloat" where
  "avg_unemployment_rate filtered_df = pd_mean (map unemployment_rate filtered_df)"


text \<open>The keys of a pivot table: the values of a column, each once, in ascending order.\<close>

definition pivot_keys :: "'k::linorder list \<Rightarrow> 'k list" where
  "pivot_keys col = sort (remdups col)"

text \<open>
  Line 85: one line per year, one column per region, in a cell the sum of the employed
  of the rows of that year and region, NaN where there is no such row.
\<close>

definition line_chart_df :: "rated_row list \<Rightarrow> (int \<times> (pystr \<times> pyfloat) list) list" where
  "line_chart_df filtered_df =
     map (\<lambda>y. (y, map (\<lambda>g. (g,
            (let cell = map employed (filter (\<lambda>r. year r = y \<and> region r = g) filtered_df)
             in if cell = [] then None else Some (pd_sum cell))))
          (pivot_keys (map region filtered_df))))
       (pivot_keys (map year filtered_df))"

text \<open>Line 96: one line per region, the mean of the rates of its rows.\<close>

definition bar_chart_df :: "rated_row list \<Rightarrow> (pystr \<times> pyfloat) list" where
  "bar_chart_df filtered_df =
     map (\<lambda>g. (g, pd_mean (map unemployment_rate (filter (\<lambda>r. region r = g) filtered_df))))
       (pivot_keys (map region filtered_df))"

text \<open>Line 92: the two totals under their labels (U+CDE8 U+C5C5 U+C790 and U+C2E4 U+C5C5 U+C790).\<close>

definition ratio_data :: "rat \<Rightarrow> rat \<Rightarrow> (pystr \<times> rat) list" where
  "ratio_data te tu = [([0xCDE8, 0xC5C5, 0xC790], te), ([0xC2E4, 0xC5C5, 0xC790], tu)]"

subsection \<open>Export: line 105\<close>

datatype column = Year | Region | Active | Employed | Unemployed | Rate

text \<open>The names of the columns, lines 18, 21, 36, 67 and 20.\<close>

fun column_name :: "column \<Rightarrow> pystr" where
  "column_name Year = [0xB144, 0xB3C4]"
| "column_name Region = [0xC9C0, 0xC5ED]"
| "column_name Active =
     [0xACBD, 0xC81C, 0xD65C, 0xB3D9, 0xC778, 0xAD6C, 0x20, 0x28, 0xCC9C, 0xBA85, 0x29]"
| "column_name Employed = [0xCDE8, 0xC5C5, 0xC790, 0x20, 0x28, 0xCC9C, 0xBA85, 0x29]"
| "column_name Unemployed = [0xC2E4, 0xC5C5, 0xC790, 0x20, 0x28, 0xCC9C, 0xBA85, 0x29]"
| "column_name Rate = [0xC2E4, 0xC5C5, 0xB960, 0x20, 0x28, 0x25, 0x29]"

text \<open>
  Modelled from the spec: the header of the input file, which is not in the repository.
  The interface description lists its five columns in this order; line 20 appends the
  derived column to them.
\<close>

definition source_columns :: "column list" where
  "source_columns = [Year, Region, Active, Employed, Unemployed]"

definition frame_columns :: "column list" where
  "frame_columns = source_columns @ [Rate]"

text \<open>
  The writer of Python's \<^verbatim>\<open>csv\<close> module with the settings of \<^verbatim>\<open>to_csv\<close>: a field that holds
  a comma, a double quote, a line feed or a carriage return is put in double quotes,
  its double quotes doubled.
\<close>

definition needs_quotes :: "pystr \<Rightarrow> bool" where
  "needs_quotes s = (set s \<inter> {44, 34, 10, 13} \<noteq> {})"

definition csv_field :: "pystr \<Rightarrow> pystr" where
  "csv_field s =
     (if needs_quotes s
      then [34] @ concat (map (\<lambda>c. if c = 34 then [34, 34] else [c]) s) @ [34]
      else s)"

text \<open>The fields of a line, separated by commas, and the line terminator of POSIX.\<close>

fun join_commas :: "pystr list \<Rightarrow> pystr" where
  "join_commas [] = []"
| "join_commas [s] = s"
| "join_commas (s # t # ss) = s @ 44 # join_commas (t # ss)"

definition csv_line :: "pystr list \<Rightarrow> pystr" where
  "csv_line cells = join_commas (map csv_field cells) @ [10]"

text \<open>
  The text of one cell: of the year as \<^verbatim>\<open>str\<close> writes an integer, of the region as it is,
  of a number of the four other columns as the library writes it.
\<close>

fun cell_text :: "(column \<Rightarrow> rat \<Rightarrow> pystr) \<Rightarrow> rated_row \<Rightarrow> column \<Rightarrow> pystr" where
  "cell_text number_str r Year = str_int (year r)"
| "cell_text number_str r Region = region r"
| "cell_text number_str r Active = number_str Active (economically_active r)"
| "cell_text number_str r Employed = number_str Employed (employed r)"
| "cell_text number_str r Unemployed = number_str Unemployed (unemployed r)"
| "cell_text number_str r Rate = number_str Rate (unemployment_rate r)"

text \<open>\<^verbatim>\<open>df.to_csv(index=False)\<close>: the line of the column names, then a line for each row.\<close>

definition to_csv :: "(column \<Rightarrow> rat \<Rightarrow> pystr) \<Rightarrow> rated_row list \<Rightarrow> pystr" where
  "to_csv number_str df =
     csv_line (map column_name frame_columns) @
     concat (map (\<lambda>r. csv_line (map (cell_text number_str r) frame_columns)) df)"


text \<open>
  UTF-8 of one code point. A surrogate has no encoding: Python raises UnicodeEncodeError
  (no string holds a number from 0x110000 on; the model gives it the same branch).
\<close>

definition utf8_char :: "nat \<Rightarrow> bytes option" where
  "utf8_char c =
     (if c < 0x80 then Some [c]
      else if c < 0x800 then Some [0xC0 + c div 64, 0x80 + c mod 64]
      else if 0xD800 \<le> c \<and> c < 0xE000 then None
      else if c < 0x10000
        then Some [0xE0 + c div 4096, 0x80 + c div 64 mod 64, 0x80 + c mod 64]
      else if c < 0x110000
        then Some [0xF0 + c div 262144, 0x80 + c div 4096 mod 64,
                   0x80 + c div 64 mod 64, 0x80 + c mod 64]
      else None)"

text \<open>The strings that have an encoding: every code point a Unicode scalar value.\<close>

definition encodable :: "pystr \<Rightarrow> bool" where
  "encodable s = list_all (\<lambda>c. c < 0xD800 \<or> (0xE000 \<le> c \<and> c < 0x110000)) s"

fun utf8 :: "pystr \<Rightarrow> exn + bytes" where
  "utf8 [] = Inr []"
| "utf8 (c # cs) =
     (case utf8_char c of
        None \<Rightarrow> Inl UnicodeEncodeError
      | Some bs \<Rightarrow> (case utf8 cs of Inl e \<Rightarrow> Inl e | Inr rest \<Rightarrow> Inr (bs @ rest)))"

text \<open>\<^verbatim>\<open>s.encode('utf-8-sig')\<close>: the byte-order mark, then the UTF-8 of the string.\<close>

definition bom :: bytes where
  "bom = [0xEF, 0xBB, 0xBF]"

definition encode_utf8_sig :: "pystr \<Rightarrow> exn + bytes" where
  "encode_utf8_sig s = (case utf8 s of Inl e \<Rightarrow> Inl e | Inr bs \<Rightarrow> Inr (bom @ bs))"


subsection \<open>The page: \<^verbatim>\<open>main_dashboard\<close>, lines 48 to 111\<close>

text \<open>
  The two selections are what \<^verbatim>\<open>setup_sidebar\<close> returned at line 53: the user's picks in
  the two multiselect widgets, which belong to Streamlit. The first argument is the text
  of numbers that \<^verbatim>\<open>to_csv\<close> uses at line 105.
\<close>

definition kpi_events :: "rated_row list \<Rightarrow> event list" where
  "kpi_events filtered_df =
     [SummaryHeading,
      Metric TotalEmployed (format_f 0 True (total_employed filtered_df)),
      Metric TotalUnemployed (format_f 0 True (total_unemployed filtered_df)),
      Metric AvgUnemploymentRate
        (format_pyfloat 2 False (avg_unemployment_rate filtered_df) @ [37]),
      Divider]"

definition chart_events :: "rated_row list \<Rightarrow> int list \<Rightarrow> event list" where
  "chart_events filtered_df selected_years =
     [Subheader TrendHeading,
      (if length selected_years > 1 then LineChart (line_chart_df filtered_df)
       else Info SelectTwoYears),
      Subheader RatioHeading,
      RatioChart (ratio_data (total_employed filtered_df) (total_unemployed filtered_df)),
      Subheader (RegionRateHeading selected_years),
      RateChart (bar_chart_df filtered_df)]"

definition table_events :: "rated_row list \<Rightarrow> event list" where
  "table_events filtered_df =
     [Expander, Dataframe (map (\<lambda>r. (r, percent_2f (unemployment_rate r))) filtered_df)]"

definition main_dashboard ::
  "(column \<Rightarrow> rat \<Rightarrow> pystr) \<Rightarrow> rated_row list \<Rightarrow> int list \<Rightarrow> pystr list \<Rightarrow> run" where
  "main_dashboard number_str df selected_years selected_regions =
     (if selected_years = [] \<or> selected_regions = []
      then \<lparr>shown = [Title, Intro, Warning SelectYearAndRegion], raised = None\<rparr>
      else
        (let filtered_df = filter_df df selected_years selected_regions
         in if filtered_df = []
            then \<lparr>shown = [Title, Intro, Warning NoMatchingData], raised = None\<rparr>
            else
              (let page = [Title, Intro] @ kpi_events filtered_df @
                          chart_events filtered_df selected_years @ table_events filtered_df
               in case encode_utf8_sig (to_csv number_str filtered_df) of
                    Inl e \<Rightarrow> \<lparr>shown = page, raised = Some e\<rparr>
                  | Inr csv_data \<Rightarrow>
                      \<lparr>shown = page @
                         [DownloadButton csv_data (ascii ''filtered_economic_data.csv'')
                            (ascii ''text/csv'')],
                       raised = None\<rparr>)))"

subsection \<open>The script: line 5 and lines 114 to 117\<close>

text \<open>The file name of line 115.\<close>

definition data_path :: pystr where
  "data_path = [0xACBD, 0xC81C, 0xD65C, 0xB3D9, 0x5F, 0xD1B5, 0xD569] @ ascii ''.csv''"

definition app ::
  "(column \<Rightarrow> rat \<Rightarrow> pystr) \<Rightarrow> filesystem \<Rightarrow> int list \<Rightarrow> pystr list \<Rightarrow> run" where
  "app number_str fs selected_years selected_regions =
     (case load_data fs data_path of
        (evs, Inl e) \<Rightarrow> \<lparr>shown = PageConfig # evs, raised = Some e\<rparr>
      | (evs, Inr None) \<Rightarrow> \<lparr>shown = PageConfig # evs, raised = None\<rparr>
      | (evs, Inr (Some data)) \<Rightarrow>
          (let r = main_dashboard number_str data selected_years selected_regions
           in \<lparr>shown = PageConfig # evs @ shown r, raised = raised r\<rparr>))"

subsection \<open>Example tables\<close>

text \<open>
  The regions are Seoul (U+C11C U+C6B8 U+D2B9 U+BCC4 U+C2DC), Gyeonggi (U+ACBD U+AE30
  U+B3C4) and Busan (U+BD80 U+C0B0 U+AD11 U+C5ED U+C2DC). Every number is a float that
  the arithmetic of line 21 treats without rounding.
\<close>

definition seoul :: pystr where
  "seoul = [0xC11C, 0xC6B8, 0xD2B9, 0xBCC4, 0xC2DC]"

definition gyeonggi :: pystr where
  "gyeonggi = [0xACBD, 0xAE30, 0xB3C4]"

definition busan :: pystr where
  "busan = [0xBD80, 0xC0B0, 0xAD11, 0xC5ED, 0xC2DC]"

definition seoul_2023 :: row where
  "seoul_2023 =
     \<lparr>year = 2023, region = seoul, economically_active = 2048, employed = 1919,
      unemployed = 129\<rparr>"

definition gyeonggi_2023 :: row where
  "gyeonggi_2023 =
     \<lparr>year = 2023, region = gyeonggi, economically_active = 1024, employed = 768,
      unemployed = 256\<rparr>"

text \<open>The dataset \<^verbatim>\<open>load_data\<close> returns for the table of the first two rows.\<close>

definition two_regions :: "rated_row list" where
  "two_regions = [with_rate seoul_2023 (3225 / 512), with_rate gyeonggi_2023 25]"

text \<open>The same region a year earlier, and a dataset of three records.\<close>

definition seoul_2022 :: row where
  "seoul_2022 =
     \<lparr>year = 2022, region = seoul, economically_active = 2048, employed = 1920,
      unemployed = 128\<rparr>"

definition three_records :: "rated_row list" where
  "three_records =
     [with_rate seoul_2022 (25 / 4), with_rate seoul_2023 (3225 / 512),
      with_rate gyeonggi_2023 25]"

text \<open>An aggregate row, a row with no active population, and two rows out of range.\<close>

definition total_2023 :: row where
  "total_2023 =
     \<lparr>year = 2023, region = aggregate_marker, economically_active = 3072, employed = 2687,
      unemployed = 385\<rparr>"

definition idle_2023 :: row where
  "idle_2023 =
     \<lparr>year = 2023, region = busan, economically_active = 0, employed = 0, unemployed = 7\<rparr>"

definition full_2023 :: row where
  "full_2023 =
     \<lparr>year = 2023, region = busan, economically_active = 100, employed = 100,
      unemployed = 0\<rparr>"

definition over_2023 :: row where
  "over_2023 =
     \<lparr>year = 2023, region = busan, economically_active = 64, employed = 0, unemployed = 128\<rparr>"

definition negative_2023 :: row where
  "negative_2023 =
     \<lparr>year = 2023, region = busan, economically_active = 64, employed = 80,
      unemployed = - 16\<rparr>"

text \<open>
  A file system that holds one table under the name of line 115, and three that hold
  none: nothing at all, files that may not be read, directories.
\<close>

definition disk :: "row list \<Rightarrow> filesystem" where
  "disk rows = (\<lambda>p. if p = data_path then CsvFile rows else NoSuchFile)"

definition empty_disk :: filesystem where
  "empty_disk = (\<lambda>p. NoSuchFile)"

definition locked_disk :: filesystem where
  "locked_disk = (\<lambda>p. NotPermitted)"

definition directory_disk :: filesystem where
  "directory_disk = (\<lambda>p. Directory)"

subsection \<open>An example of the text of numbers\<close>

text \<open>
  The digits after the point of a number in [0, 1), until none is left; at most \<open>n\<close>
  of them.
\<close>

fun frac_digits :: "nat \<Rightarrow> rat \<Rightarrow> pystr" where
  "frac_digits 0 x = []"
| "frac_digits (Suc n) x =
     (let y = x * 10; d = \<lfloor>y\<rfloor>
      in (48 + nat d) # (if y = of_int d then [] else frac_digits n (y - of_int d)))"

text \<open>
  The decimal expansion of a number, with \<^verbatim>\<open>.0\<close> after a whole number. This is not the
  text Python writes for every float: it is that text for the floats whose expansion has
  at most 15 significant digits and needs no exponent, as the numbers of the example
  tables are (2048.0, 129.0, 6.298828125). It serves as the text of numbers in the
  examples only, for columns of floats.
\<close>

definition decimal_text :: "rat \<Rightarrow> pystr" where
  "decimal_text x =
     (let whole = \<lfloor>\<bar>x\<bar>\<rfloor>; rest = \<bar>x\<bar> - of_int whole
      in (if x < 0 then [45] else []) @ digits (nat whole) @ [46] @
         (if rest = 0 then [48] else frac_digits 17 rest))"

definition example_number_str :: "column \<Rightarrow> rat \<Rightarrow> pystr" where
  "example_number_str c x = decimal_text x"

section \<open>Properties\<close>

subsection \<open>The loader\<close>

lemma rate_lambda_value:
  "rate_lambda r =
     Inr (if economically_active r > 0 then unemployed r / economically_active r * 100 else 0)"
  by (simp add: rate_lambda_def truediv_def)

lemma apply_axis1_rate_lambda:
  "apply_axis1 rate_lambda df =
     Inr (map (\<lambda>r. if economically_active r > 0 then unemployed r / economically_active r * 100 else 0) df)"
  by (induction df) (simp_all add: rate_lambda_value)

lemma assign_rate_map: "assign_rate df (map f df) = map (\<lambda>r. with_rate r (f r)) df"
  by (induction df) (simp_all add: assign_rate_def)

lemma load_body_csv:
  assumes "fs path = CsvFile rows"
  shows "load_body fs path =
     Inr (map (\<lambda>r. with_rate r (if economically_active r > 0
                                  then unemployed r / economically_active r * 100 else 0))
            (drop_aggregate rows))"
  using assms by (simp add: load_body_def apply_axis1_rate_lambda assign_rate_map)

lemma load_data_csv:
  assumes "fs path = CsvFile rows"
  shows "load_data fs path =
     ([], Inr (Some (map (\<lambda>r. with_rate r (if economically_active r > 0
                                  then unemployed r / economically_active r * 100 else 0))
            (drop_aggregate rows))))"
  using load_body_csv [of fs path rows] assms by (simp add: load_data_def)

lemma truncate_with_rate: "row.truncate (with_rate r v) = r"
  by (simp add: with_rate_def row.truncate_def)

lemma with_rate_sel [simp]:
  "year (with_rate r v) = year r" "region (with_rate r v) = region r"
  "economically_active (with_rate r v) = economically_active r"
  "employed (with_rate r v) = employed r" "unemployed (with_rate r v) = unemployed r"
  "unemployment_rate (with_rate r v) = v"
  by (simp_all add: with_rate_def)

lemma rate_in_range:
  fixes u a :: rat
  assumes "0 \<le> u" and "u \<le> a" and "0 < a"
  shows "0 \<le> u / a * 100" and "u / a * 100 \<le> 100"
proof -
  from assms show "0 \<le> u / a * 100" by simp
  from assms have "u / a \<le> 1" by (simp add: divide_le_eq)
  then have "u / a * 100 \<le> 1 * 100" by (rule mult_right_mono) simp
  then show "u / a * 100 \<le> 100" by simp
qed



text \<open>
  Claim C4. The dataset the loader returns holds no record of the aggregate region: its
  records are the rows of the table whose region is not the marker, in the order of the
  table, and its rate column is what the lambda of line 21 returns on those rows, the
  aggregate rows already gone.
\<close>

theorem loader_drops_aggregate:
  assumes "fs path = CsvFile rows"
  shows "\<exists>ds. load_data fs path = ([], Inr (Some ds)) \<and>
           (\<forall>r \<in> set ds. region r \<noteq> aggregate_marker) \<and>
           map row.truncate ds = filter (\<lambda>r. region r \<noteq> aggregate_marker) rows \<and>
           apply_axis1 rate_lambda (filter (\<lambda>r. region r \<noteq> aggregate_marker) rows) =
             Inr (map unemployment_rate ds)"
  using load_data_csv [of fs path rows] assms
  by (auto simp: drop_aggregate_def o_def truncate_with_rate apply_axis1_rate_lambda)

theorem loader_drops_aggregate_witness:
  "disk [seoul_2023, total_2023] data_path = CsvFile [seoul_2023, total_2023] \<and>
   (\<exists>ds. load_data (disk [seoul_2023, total_2023]) data_path = ([], Inr (Some ds)) \<and>
           (\<forall>r \<in> set ds. region r \<noteq> aggregate_marker) \<and>
           map row.truncate ds = [seoul_2023] \<and>
           apply_axis1 rate_lambda [seoul_2023] = Inr (map unemployment_rate ds))"
  using loader_drops_aggregate [of "disk [seoul_2023, total_2023]" data_path "[seoul_2023, total_2023]"]
  by (simp add: disk_def seoul_2023_def total_2023_def seoul_def aggregate_marker_def)

text \<open>
  Claim C8, as the code has it. For every record of the loaded dataset: the rate lies
  between 0 and 100 when the employed and the unemployed are both at least 0 and their
  sum is at most the economically active; the rate is 0 when the economically active are
  0, whatever the unemployed; and the rate is 0 exactly when the economically active are
  at most 0 or the unemployed are 0.
\<close>

theorem rate_bounds:
  assumes "fs path = CsvFile rows"
  shows "\<exists>ds. load_data fs path = ([], Inr (Some ds)) \<and>
           (\<forall>r \<in> set ds.
              (0 \<le> employed r \<and> 0 \<le> unemployed r \<and>
               employed r + unemployed r \<le> economically_active r \<longrightarrow>
                 0 \<le> unemployment_rate r \<and> unemployment_rate r \<le> 100) \<and>
              (economically_active r = 0 \<longrightarrow> unemployment_rate r = 0) \<and>
              (unemployment_rate r = 0 \<longleftrightarrow> economically_active r \<le> 0 \<or> unemployed r = 0))"
proof -
  let ?rate = "\<lambda>r. if economically_active r > 0
                    then unemployed r / economically_active r * 100 else 0"
  let ?ds = "map (\<lambda>r. with_rate r (?rate r)) (drop_aggregate rows)"
  have loaded: "load_data fs path = ([], Inr (Some ?ds))"
    using load_data_csv [of fs path rows] assms by simp
  have "(0 \<le> employed x \<and> 0 \<le> unemployed x \<and>
               employed x + unemployed x \<le> economically_active x \<longrightarrow>
                 0 \<le> unemployment_rate x \<and> unemployment_rate x \<le> 100) \<and>
              (economically_active x = 0 \<longrightarrow> unemployment_rate x = 0) \<and>
              (unemployment_rate x = 0 \<longleftrightarrow> economically_active x \<le> 0 \<or> unemployed x = 0)"
    if "x \<in> set ?ds" for x
  proof -
    from that obtain r where x: "x = with_rate r (?rate r)" by auto
    show ?thesis
    proof (cases "0 < economically_active r")
      case True
      have "0 \<le> unemployed r / economically_active r * 100 \<and>
            unemployed r / economically_active r * 100 \<le> 100"
        if "0 \<le> employed r" "0 \<le> unemployed r"
           "employed r + unemployed r \<le> economically_active r"
        using rate_in_range [of "unemployed r" "economically_active r"] that True by simp
      with True show ?thesis by (auto simp: x)
    next
      case False
      then show ?thesis by (auto simp: x)
    qed
  qed
  with loaded show ?thesis by blast
qed

theorem rate_bounds_witness:
  "disk [seoul_2023, idle_2023] data_path = CsvFile [seoul_2023, idle_2023] \<and>
   load_data (disk [seoul_2023, idle_2023]) data_path =
     ([], Inr (Some [with_rate seoul_2023 (3225 / 512), with_rate idle_2023 0])) \<and>
   (0 \<le> employed seoul_2023 \<and> 0 \<le> unemployed seoul_2023 \<and>
    employed seoul_2023 + unemployed seoul_2023 \<le> economically_active seoul_2023) \<and>
   economically_active idle_2023 = 0 \<and>
   (\<exists>ds. load_data (disk [seoul_2023, idle_2023]) data_path = ([], Inr (Some ds)) \<and>
           (\<forall>r \<in> set ds.
              (0 \<le> employed r \<and> 0 \<le> unemployed r \<and>
               employed r + unemployed r \<le> economically_active r \<longrightarrow>
                 0 \<le> unemployment_rate r \<and> unemployment_rate r \<le> 100) \<and>
              (economically_active r = 0 \<longrightarrow> unemployment_rate r = 0) \<and>
              (unemployment_rate r = 0 \<longleftrightarrow> economically_active r \<le> 0 \<or> unemployed r = 0)))"
proof -
  have on_disk: "disk [seoul_2023, idle_2023] data_path = CsvFile [seoul_2023, idle_2023]"
    by (simp add: disk_def)
  have "load_data (disk [seoul_2023, idle_2023]) data_path =
     ([], Inr (Some [with_rate seoul_2023 (3225 / 512), with_rate idle_2023 0]))"
    using load_data_csv [of "disk [seoul_2023, idle_2023]" data_path "[seoul_2023, idle_2023]"]
      on_disk
    by (simp add: drop_aggregate_def seoul_2023_def idle_2023_def aggregate_marker_def
        seoul_def busan_def)
  moreover have "0 \<le> employed seoul_2023 \<and> 0 \<le> unemployed seoul_2023 \<and>
    employed seoul_2023 + unemployed seoul_2023 \<le> economically_active seoul_2023"
    by (simp add: seoul_2023_def)
  moreover have "economically_active idle_2023 = 0" by (simp add: idle_2023_def)
  ultimately show ?thesis using on_disk
      rate_bounds [of "disk [seoul_2023, idle_2023]" data_path "[seoul_2023, idle_2023]"]
    by blast
qed

text \<open>
  Claim C8 as it is written fails twice. A row with 80 employed, -16 unemployed and 64
  economically active satisfies the condition on the sum and gets the rate -25. A row
  with 100 economically active and nobody unemployed gets the rate 0 although its
  economically active are not 0.
\<close>

theorem rate_bounds_counterexample:
  "load_data (disk [negative_2023, full_2023]) data_path =
     ([], Inr (Some [with_rate negative_2023 (- 25), with_rate full_2023 0])) \<and>
   (employed negative_2023 + unemployed negative_2023 \<le> economically_active negative_2023 \<and>
    0 \<le> employed negative_2023 + unemployed negative_2023 \<and>
    unemployment_rate (with_rate negative_2023 (- 25)) < 0) \<and>
   (unemployment_rate (with_rate full_2023 0) = 0 \<and>
    economically_active (with_rate full_2023 0) \<noteq> 0)"
proof -
  have on_disk: "disk [negative_2023, full_2023] data_path = CsvFile [negative_2023, full_2023]"
    by (simp add: disk_def)
  have "load_data (disk [negative_2023, full_2023]) data_path =
     ([], Inr (Some [with_rate negative_2023 (- 25), with_rate full_2023 0]))"
    using load_data_csv [of "disk [negative_2023, full_2023]" data_path
        "[negative_2023, full_2023]"] on_disk
    by (simp add: drop_aggregate_def negative_2023_def full_2023_def aggregate_marker_def
        busan_def)
  then show ?thesis by (simp add: negative_2023_def full_2023_def)
qed

subsection \<open>The filter\<close>

lemma isin_map: "isin (map f df) vals = map (\<lambda>r. f r \<in> set vals) df"
  by (simp add: isin_def)

lemma mask_and_map: "mask_and (map p df) (map q df) = map (\<lambda>r. p r \<and> q r) df"
  by (induction df) (simp_all add: mask_and_def)

lemma boolean_index_map: "boolean_index df (map p df) = filter p df"
  by (induction df) (simp_all add: boolean_index_def)

lemma filter_df_filter:
  "filter_df df ys rs = filter (\<lambda>r. year r \<in> set ys \<and> region r \<in> set rs) df"
  by (simp add: filter_df_def isin_map mask_and_map boolean_index_map)

text \<open>
  Claim C5. For every dataset and every selection of years and regions, the non-empty ones
  among them, line 60 returns the records whose year is among the selected years and
  whose region is among the selected regions, both at once, in the order of the dataset:
  a subsequence of it. The filter is a function of its three arguments and has no effect.
\<close>

theorem filter_is_conjunction:
  "filter_df df ys rs = filter (\<lambda>r. year r \<in> set ys \<and> region r \<in> set rs) df \<and>
   subseq (filter_df df ys rs) df \<and>
   set (filter_df df ys rs) = {r \<in> set df. year r \<in> set ys \<and> region r \<in> set rs}"
  by (simp add: filter_df_filter)

theorem filter_is_conjunction_witness:
  "filter_df three_records [2023] [seoul] = [with_rate seoul_2023 (3225 / 512)] \<and>
   subseq (filter_df three_records [2023] [seoul]) three_records \<and>
   filter_df three_records [2023] [seoul] \<noteq> three_records"
  using filter_is_conjunction [of three_records "[2023]" "[seoul]"]
  by (simp add: three_records_def seoul_2022_def seoul_2023_def gyeonggi_2023_def
      seoul_def gyeonggi_def)

subsection \<open>Evaluating the text of a number\<close>




subsection \<open>The summary\<close>

lemma foldl_plus: "foldl (+) a xs = a + sum_list xs" for a :: rat
  by (induction xs arbitrary: a) (simp_all add: add.assoc)

lemma pd_sum_sum_list: "pd_sum xs = sum_list xs"
  by (simp add: pd_sum_def foldl_plus)



lemma two_regions_loaded:
  "load_data (disk [seoul_2023, gyeonggi_2023]) data_path = ([], Inr (Some two_regions))"
proof -
  have "disk [seoul_2023, gyeonggi_2023] data_path = CsvFile [seoul_2023, gyeonggi_2023]"
    by (simp add: disk_def)
  then show ?thesis
    using load_data_csv [of "disk [seoul_2023, gyeonggi_2023]" data_path
        "[seoul_2023, gyeonggi_2023]"]
    by (simp add: drop_aggregate_def seoul_2023_def gyeonggi_2023_def aggregate_marker_def
        seoul_def gyeonggi_def two_regions_def)
qed






subsection \<open>No validation of the range\<close>

lemma out_of_range_loaded:
  "load_data (disk [over_2023, negative_2023]) data_path =
     ([], Inr (Some [with_rate over_2023 200, with_rate negative_2023 (- 25)]))"
proof -
  have "disk [over_2023, negative_2023] data_path = CsvFile [over_2023, negative_2023]"
    by (simp add: disk_def)
  then show ?thesis
    using load_data_csv [of "disk [over_2023, negative_2023]" data_path
        "[over_2023, negative_2023]"]
    by (simp add: drop_aggregate_def over_2023_def negative_2023_def aggregate_marker_def
        busan_def)
qed

lemma out_of_range_summary:
  "filter_df [with_rate over_2023 200, with_rate negative_2023 (- 25)] [2023] [busan] =
     [with_rate over_2023 200, with_rate negative_2023 (- 25)]"
  "total_unemployed [with_rate over_2023 200, with_rate negative_2023 (- 25)] = 112"
  "avg_unemployment_rate [with_rate over_2023 200, with_rate negative_2023 (- 25)] =
     Some (175 / 2)"
  by (simp_all add: filter_df_filter total_unemployed_def avg_unemployment_rate_def
      pd_mean_def pd_sum_def over_2023_def negative_2023_def)

text \<open>
  Claim C10. A row of the table with a region other than the marker and a positive
  number of economically active is kept with the rate its two numbers give, whatever
  they are: above 100 when the unemployed exceed the economically active, below 0 when
  the unemployed are negative. The record is in every working subset whose selection
  names its year and region, and its numbers enter the sum of the unemployed and the
  mean of the rates as they are.
\<close>

theorem no_range_validation:
  assumes "fs path = CsvFile rows" and "r \<in> set rows" and "region r \<noteq> aggregate_marker"
    and "0 < economically_active r"
  shows "\<exists>ds x. load_data fs path = ([], Inr (Some ds)) \<and> x \<in> set ds \<and>
           row.truncate x = r \<and>
           unemployment_rate x = unemployed r / economically_active r * 100 \<and>
           (economically_active r < unemployed r \<longrightarrow> 100 < unemployment_rate x) \<and>
           (unemployed r < 0 \<longrightarrow> unemployment_rate x < 0) \<and>
           (\<forall>ys rs. year r \<in> set ys \<and> region r \<in> set rs \<longrightarrow> x \<in> set (filter_df ds ys rs)) \<and>
           (\<forall>s. total_unemployed (x # s) = unemployed r + total_unemployed s \<and>
                avg_unemployment_rate (x # s) =
                  Some ((unemployment_rate x + (\<Sum>y\<leftarrow>s. unemployment_rate y)) /
                        of_nat (Suc (length s))))"
proof -
  let ?rate = "\<lambda>r. if economically_active r > 0
                    then unemployed r / economically_active r * 100 else 0"
  let ?ds = "map (\<lambda>r. with_rate r (?rate r)) (drop_aggregate rows)"
  let ?x = "with_rate r (unemployed r / economically_active r * 100)"
  have loaded: "load_data fs path = ([], Inr (Some ?ds))"
    using load_data_csv [of fs path rows] assms(1) by simp
  have kept: "r \<in> set (drop_aggregate rows)"
    using assms(2,3) by (simp add: drop_aggregate_def)
  have "with_rate r (?rate r) \<in> set ?ds"
    using kept by (simp only: set_map) (rule imageI)
  then have member: "?x \<in> set ?ds"
    using assms(4) by simp
  have above: "100 < unemployed r / economically_active r * 100"
    if "economically_active r < unemployed r"
  proof -
    from that assms(4) have "1 < unemployed r / economically_active r"
      by (simp add: less_divide_eq)
    then have "1 * 100 < unemployed r / economically_active r * 100"
      by (rule mult_strict_right_mono) simp
    then show ?thesis by simp
  qed
  have below: "unemployed r / economically_active r * 100 < 0" if "unemployed r < 0"
    using that assms(4) by (simp add: mult_less_0_iff divide_less_0_iff)
  have selected: "?x \<in> set (filter_df ?ds ys rs)"
    if "year r \<in> set ys \<and> region r \<in> set rs" for ys rs
    using member that by (simp add: filter_df_filter)
  have sums: "total_unemployed (?x # s) = unemployed r + total_unemployed s \<and>
       avg_unemployment_rate (?x # s) =
         Some ((unemployment_rate ?x + (\<Sum>y\<leftarrow>s. unemployment_rate y)) / of_nat (Suc (length s)))"
    for s
    by (simp add: total_unemployed_def avg_unemployment_rate_def pd_mean_def pd_sum_sum_list)
  from loaded member above below selected sums show ?thesis
    by (intro exI [of _ ?ds] exI [of _ ?x]) (simp add: truncate_with_rate)
qed

theorem no_range_validation_witness:
  "disk [over_2023, negative_2023] data_path = CsvFile [over_2023, negative_2023] \<and>
   (over_2023 \<in> set [over_2023, negative_2023] \<and> region over_2023 \<noteq> aggregate_marker \<and>
    0 < economically_active over_2023 \<and> economically_active over_2023 < unemployed over_2023) \<and>
   (negative_2023 \<in> set [over_2023, negative_2023] \<and>
    region negative_2023 \<noteq> aggregate_marker \<and>
    0 < economically_active negative_2023 \<and> unemployed negative_2023 < 0) \<and>
   load_data (disk [over_2023, negative_2023]) data_path =
     ([], Inr (Some [with_rate over_2023 200, with_rate negative_2023 (- 25)])) \<and>
   filter_df [with_rate over_2023 200, with_rate negative_2023 (- 25)] [2023] [busan] =
     [with_rate over_2023 200, with_rate negative_2023 (- 25)] \<and>
   total_unemployed [with_rate over_2023 200, with_rate negative_2023 (- 25)] = 112 \<and>
   avg_unemployment_rate [with_rate over_2023 200, with_rate negative_2023 (- 25)] =
     Some (175 / 2) \<and>
   (\<exists>ds x. load_data (disk [over_2023, negative_2023]) data_path = ([], Inr (Some ds)) \<and>
      x \<in> set ds \<and> row.truncate x = over_2023 \<and>
      unemployment_rate x = unemployed over_2023 / economically_active over_2023 * 100 \<and>
      (economically_active over_2023 < unemployed over_2023 \<longrightarrow> 100 < unemployment_rate x) \<and>
      (unemployed over_2023 < 0 \<longrightarrow> unemployment_rate x < 0) \<and>
      (\<forall>ys rs. year over_2023 \<in> set ys \<and> region over_2023 \<in> set rs \<longrightarrow> x \<in> set (filter_df ds ys rs)) \<and>
      (\<forall>s. total_unemployed (x # s) = unemployed over_2023 + total_unemployed s \<and>
           avg_unemployment_rate (x # s) =
             Some ((unemployment_rate x + (\<Sum>y\<leftarrow>s. unemployment_rate y)) /
                   of_nat (Suc (length s))))) \<and>
   (\<exists>ds x. load_data (disk [over_2023, negative_2023]) data_path = ([], Inr (Some ds)) \<and>
      x \<in> set ds \<and> row.truncate x = negative_2023 \<and>
      unemployment_rate x = unemployed negative_2023 / economically_active negative_2023 * 100 \<and>
      (economically_active negative_2023 < unemployed negative_2023 \<longrightarrow> 100 < unemployment_rate x) \<and>
      (unemployed negative_2023 < 0 \<longrightarrow> unemployment_rate x < 0) \<and>
      (\<forall>ys rs. year negative_2023 \<in> set ys \<and> region negative_2023 \<in> set rs \<longrightarrow> x \<in> set (filter_df ds ys rs)) \<and>
      (\<forall>s. total_unemployed (x # s) = unemployed negative_2023 + total_unemployed s \<and>
           avg_unemployment_rate (x # s) =
             Some ((unemployment_rate x + (\<Sum>y\<leftarrow>s. unemployment_rate y)) /
                   of_nat (Suc (length s)))))"
proof -
  have on_disk: "disk [over_2023, negative_2023] data_path = CsvFile [over_2023, negative_2023]"
    by (simp add: disk_def)
  have over: "over_2023 \<in> set [over_2023, negative_2023]"
    "region over_2023 \<noteq> aggregate_marker" "0 < economically_active over_2023"
    "economically_active over_2023 < unemployed over_2023"
    by (simp_all add: over_2023_def busan_def aggregate_marker_def)
  have neg: "negative_2023 \<in> set [over_2023, negative_2023]"
    "region negative_2023 \<noteq> aggregate_marker" "0 < economically_active negative_2023"
    "unemployed negative_2023 < 0"
    by (simp_all add: negative_2023_def busan_def aggregate_marker_def)
  note a = no_range_validation [of "disk [over_2023, negative_2023]" data_path
      "[over_2023, negative_2023]" over_2023, OF on_disk over(1-3)]
  note b = no_range_validation [of "disk [over_2023, negative_2023]" data_path
      "[over_2023, negative_2023]" negative_2023, OF on_disk neg(1-3)]
  from on_disk over neg out_of_range_loaded out_of_range_summary a b
  show ?thesis by (intro conjI)
qed

subsection \<open>The two early returns\<close>

text \<open>
  Claim C6. When no year or no region is selected, the page is the title, the
  introduction and the warning of line 57, and nothing else: no figure, no chart, no
  table is computed or shown.
\<close>

theorem empty_selection_short_circuits:
  assumes "ys = [] \<or> rs = []"
  shows "main_dashboard number_str df ys rs =
           \<lparr>shown = [Title, Intro, Warning SelectYearAndRegion], raised = None\<rparr>"
  using assms by (simp add: main_dashboard_def)

theorem empty_selection_short_circuits_witness:
  "(([] :: int list) = [] \<or> [seoul] = []) \<and>
   main_dashboard example_number_str two_regions [] [seoul] =
     \<lparr>shown = [Title, Intro, Warning SelectYearAndRegion], raised = None\<rparr> \<and>
   ([2023 :: int] = [] \<or> ([] :: pystr list) = []) \<and>
   main_dashboard example_number_str two_regions [2023] [] =
     \<lparr>shown = [Title, Intro, Warning SelectYearAndRegion], raised = None\<rparr>"
  using empty_selection_short_circuits [of "[]" "[seoul]" example_number_str two_regions]
    empty_selection_short_circuits [of "[2023]" "[]" example_number_str two_regions]
  by simp





subsection \<open>A file that cannot be loaded\<close>

text \<open>
  Claim C9, as the code has it. When no file exists at the path, \<^verbatim>\<open>load_data\<close> shows the
  file-not-found message and returns \<^verbatim>\<open>None\<close>, and the script ends having shown nothing
  else. When the path exists and cannot be read, for lack of permission or because it is
  a directory, the exception of \<^verbatim>\<open>pd.read_csv\<close> is not caught: \<^verbatim>\<open>load_data\<close> raises it
  and shows no message, and the script ends with it, before any filtering, aggregation
  or rendering.
\<close>

theorem load_failure:
  "(fs path = NoSuchFile \<longrightarrow>
      load_data fs path = ([ErrorBox (FileNotFoundMessage path)], Inr None) \<and>
      (path = data_path \<longrightarrow>
         app number_str fs ys rs =
           \<lparr>shown = [PageConfig, ErrorBox (FileNotFoundMessage data_path)], raised = None\<rparr>)) \<and>
   (fs path = NotPermitted \<longrightarrow>
      load_data fs path = ([], Inl PermissionError) \<and>
      (path = data_path \<longrightarrow>
         app number_str fs ys rs = \<lparr>shown = [PageConfig], raised = Some PermissionError\<rparr>)) \<and>
   (fs path = Directory \<longrightarrow>
      load_data fs path = ([], Inl IsADirectoryError) \<and>
      (path = data_path \<longrightarrow>
         app number_str fs ys rs = \<lparr>shown = [PageConfig], raised = Some IsADirectoryError\<rparr>))"
  by (auto simp: app_def load_data_def load_body_def)

theorem load_failure_witness:
  "(empty_disk data_path = NoSuchFile \<and>
    load_data empty_disk data_path =
      ([ErrorBox (FileNotFoundMessage data_path)], Inr None) \<and>
    app example_number_str empty_disk [2023] [seoul] =
      \<lparr>shown = [PageConfig, ErrorBox (FileNotFoundMessage data_path)], raised = None\<rparr>) \<and>
   (locked_disk data_path = NotPermitted \<and>
    load_data locked_disk data_path = ([], Inl PermissionError) \<and>
    app example_number_str locked_disk [2023] [seoul] =
      \<lparr>shown = [PageConfig], raised = Some PermissionError\<rparr>) \<and>
   (directory_disk data_path = Directory \<and>
    load_data directory_disk data_path = ([], Inl IsADirectoryError) \<and>
    app example_number_str directory_disk [2023] [seoul] =
      \<lparr>shown = [PageConfig], raised = Some IsADirectoryError\<rparr>)"
  using load_failure [of empty_disk data_path example_number_str "[2023]" "[seoul]"]
    load_failure [of locked_disk data_path example_number_str "[2023]" "[seoul]"]
    load_failure [of directory_disk data_path example_number_str "[2023]" "[seoul]"]
  by (simp add: empty_disk_def locked_disk_def directory_disk_def)

text \<open>
  Claim C9 as it is written fails for a file the process may not read: the failure is a
  PermissionError, not the file-not-found case, and no message is shown.
\<close>

theorem load_failure_counterexample:
  "load_data locked_disk data_path = ([], Inl PermissionError) \<and>
   load_data locked_disk data_path \<noteq>
     ([ErrorBox (FileNotFoundMessage data_path)], Inr None) \<and>
   app example_number_str locked_disk [2023] [seoul] =
     \<lparr>shown = [PageConfig], raised = Some PermissionError\<rparr>"
  by (simp add: app_def load_data_def load_body_def locked_disk_def)

subsection \<open>The export\<close>






lemma encodable_append [simp]: "encodable (a @ b) \<longleftrightarrow> encodable a \<and> encodable b"
  by (simp add: encodable_def)

























end
